theory Spec2Isabelle
  imports Complex_Main
begin

section \<open>Household expense ledger: data model\<close>

text \<open>
  The backend keeps three tables (\<open>AppDbContext\<close>): \<open>Pessoas\<close>, \<open>Categorias\<close> and
  \<open>Transacoes\<close>. Each model class becomes a record holding its scalar columns, which is
  a row of its table. The navigation properties (\<open>Pessoa.Transacoes\<close>,
  \<open>Categoria.Transacoes\<close>, \<open>Transacao.Pessoa\<close>, \<open>Transacao.Categoria\<close>) are not
  columns. When rows are read, the database derives them from the foreign keys
  \<open>PessoaId\<close> and \<open>CategoriaId\<close>, and the model computes them from the tables where the
  code loads them. When an entity is bound from a request body they are settable, and
  the entities nested in them are passed to the controller next to the row.

  C-sharp \<open>int\<close> keys and ages are only compared, never computed with, and are modelled as
  \<open>int\<close>. A C-sharp \<open>decimal\<close> is a signed 96-bit integer with a scale of 0 to 28
  decimal digits; the model keeps its numeric value, a rational, and the decimal
  arithmetic of the reports rounds and overflows as written out below. The store keeps
  an amount as it was given: no code rounds it, and the database of \<open>Program.cs\<close>
  does not enforce the declared column type \<open>decimal(18,2)\<close>.
\<close>

type_synonym decimal = rat

record Pessoa =
  Pessoa_Id :: int
  Nome :: string
  Idade :: int

record Categoria =
  Categoria_Id :: int
  Categoria_Descricao :: string
  Finalidade :: string

record Transacao =
  Transacao_Id :: int
  Transacao_Descricao :: string
  Valor :: decimal
  Tipo :: string
  CategoriaId :: int
  PessoaId :: int

record AppDbContext =
  Pessoas :: "Pessoa list"
  Categorias :: "Categoria list"
  Transacoes :: "Transacao list"

text \<open>\<open>Database.EnsureCreated\<close> on a fresh file: three empty tables.\<close>

definition EnsureCreated :: AppDbContext where
  "EnsureCreated = \<lparr>Pessoas = [], Categorias = [], Transacoes = []\<rparr>"

subsection \<open>Responses\<close>

text \<open>
  Every response body of the controllers is an object with one \<open>message\<close> string, or the
  created entity, or a report. Each message literal of the source is one constructor:
  \<^item> \<open>DescricaoObrigatoria\<close>: "A descricao e obrigatoria"
  \<^item> \<open>ValorPositivo\<close>: "O valor deve ser um numero positivo"
  \<^item> \<open>TipoInvalido\<close>: "Tipo invalido. Valores aceitos: 'Despesa' ou 'Receita'"
  \<^item> \<open>FinalidadeInvalida\<close>: "Finalidade invalida. Valores aceitos: 'Despesa', 'Receita' ou 'Ambas'"
  \<^item> \<open>NomeObrigatorio\<close>: "O nome e obrigatorio"
  \<^item> \<open>IdadePositiva\<close>: "A idade deve ser um numero positivo"
  \<^item> \<open>PessoaNaoEncontrada\<close>: "Pessoa nao encontrada"
  \<^item> \<open>CategoriaNaoEncontrada\<close>: "Categoria nao encontrada"
  \<^item> \<open>MenorDeIdade\<close>: "Menores de idade (menor de 18 anos) so podem registrar despesas"
  \<^item> \<open>CategoriaExclusivaReceitas\<close>: "Esta categoria e exclusiva para receitas e nao pode ser usada em despesas"
  \<^item> \<open>CategoriaExclusivaDespesas\<close>: "Esta categoria e exclusiva para despesas e nao pode ser usada em receitas"
  \<^item> \<open>PessoaDeletada n\<close>: "Pessoa deletada com sucesso. Todas as transacoes e n categoria(s) orfa(s) foram removidas."
  The constructors of \<open>ActionResult\<close> are the helper methods of \<open>ControllerBase\<close> the
  source calls: \<open>Ok\<close> (200), \<open>CreatedAtAction\<close> (201), \<open>BadRequest\<close> (400), \<open>NotFound\<close> (404).
\<close>

datatype message =
    DescricaoObrigatoria
  | ValorPositivo
  | TipoInvalido
  | FinalidadeInvalida
  | NomeObrigatorio
  | IdadePositiva
  | PessoaNaoEncontrada
  | CategoriaNaoEncontrada
  | MenorDeIdade
  | CategoriaExclusivaReceitas
  | CategoriaExclusivaDespesas
  | PessoaDeletada int

datatype 'a ActionResult =
    Ok 'a
  | CreatedAtAction 'a
  | BadRequest message
  | NotFound message

text \<open>
  The exceptions no controller catches: \<open>OverflowException\<close> of the decimal arithmetic and
  \<open>DbUpdateException\<close> of a \<open>SaveChangesAsync\<close> that violates a foreign key. The request
  then fails as a whole and nothing is saved.
\<close>

datatype exception = OverflowException | DbUpdateException

subsection \<open>The store operations the controllers call\<close>

text \<open>
  \<open>FindAsync\<close> looks a row up by primary key. The key of a new row is generated by the
  database; the model takes the successor of the largest key in the table, which is a key
  no row of the table has. Inserting a row appends it under that key.
\<close>

definition Pessoas_Find :: "AppDbContext \<Rightarrow> int \<Rightarrow> Pessoa option" where
  "Pessoas_Find ctx k = find (\<lambda>p. Pessoa_Id p = k) (Pessoas ctx)"

definition Categorias_Find :: "AppDbContext \<Rightarrow> int \<Rightarrow> Categoria option" where
  "Categorias_Find ctx k = find (\<lambda>c. Categoria_Id c = k) (Categorias ctx)"

definition next_key :: "int list \<Rightarrow> int" where
  "next_key ks = fold max ks 0 + 1"

definition Pessoas_Insert :: "AppDbContext \<Rightarrow> Pessoa \<Rightarrow> Pessoa \<times> AppDbContext" where
  "Pessoas_Insert ctx pessoa =
     (let saved = pessoa\<lparr>Pessoa_Id := next_key (map Pessoa_Id (Pessoas ctx))\<rparr>
      in (saved, ctx\<lparr>Pessoas := Pessoas ctx @ [saved]\<rparr>))"

definition Categorias_Insert :: "AppDbContext \<Rightarrow> Categoria \<Rightarrow> Categoria \<times> AppDbContext" where
  "Categorias_Insert ctx categoria =
     (let saved = categoria\<lparr>Categoria_Id := next_key (map Categoria_Id (Categorias ctx))\<rparr>
      in (saved, ctx\<lparr>Categorias := Categorias ctx @ [saved]\<rparr>))"

definition Transacoes_Add :: "AppDbContext \<Rightarrow> Transacao \<Rightarrow> Transacao \<times> AppDbContext" where
  "Transacoes_Add ctx transacao =
     (let saved = transacao\<lparr>Transacao_Id := next_key (map Transacao_Id (Transacoes ctx))\<rparr>
      in (saved, ctx\<lparr>Transacoes := Transacoes ctx @ [saved]\<rparr>))"

text \<open>
  \<open>Pessoas.Add\<close> and \<open>Categorias.Add\<close> track the entity bound from the request body
  together with every entity reachable through its navigation properties, and
  \<open>SaveChangesAsync\<close> inserts them all in one database transaction. The model takes the
  entity's row and the transactions nested in its \<open>Transacoes\<close> collection, each with the
  entity possibly nested in its own navigation property to the other table
  (\<open>Transacao.Categoria\<close> under a person, \<open>Transacao.Pessoa\<close> under a category);
  objects nested deeper are outside the model. A nested transaction is saved under the key
  of the entity that owns the collection, whatever foreign key the body gave; an entity
  nested in it is inserted as a new row and the transaction refers to that row. If a saved
  transaction then names a row that does not exist, the database refuses the foreign key,
  \<open>SaveChangesAsync\<close> throws and nothing is saved. The fields of the nested rows are not
  looked at by any controller.
\<close>

fun Pessoas_Add_nested ::
  "int \<Rightarrow> (Transacao \<times> Categoria option) list \<Rightarrow> AppDbContext \<Rightarrow> AppDbContext" where
  "Pessoas_Add_nested pk [] ctx = ctx"
| "Pessoas_Add_nested pk ((transacao, None) # rest) ctx =
     Pessoas_Add_nested pk rest (snd (Transacoes_Add ctx (transacao\<lparr>PessoaId := pk\<rparr>)))"
| "Pessoas_Add_nested pk ((transacao, Some categoria) # rest) ctx =
     (let (saved, ctx1) = Categorias_Insert ctx categoria
      in Pessoas_Add_nested pk rest
           (snd (Transacoes_Add ctx1
                   (transacao\<lparr>CategoriaId := Categoria_Id saved, PessoaId := pk\<rparr>))))"

definition Pessoas_Add ::
  "AppDbContext \<Rightarrow> Pessoa \<Rightarrow> (Transacao \<times> Categoria option) list
     \<Rightarrow> exception + Pessoa \<times> AppDbContext" where
  "Pessoas_Add ctx pessoa transacoes =
     (let (saved, ctx1) = Pessoas_Insert ctx pessoa;
          ctx2 = Pessoas_Add_nested (Pessoa_Id saved) transacoes ctx1
      in if list_all (\<lambda>t. CategoriaId t \<in> set (map Categoria_Id (Categorias ctx2)))
              (drop (length (Transacoes ctx)) (Transacoes ctx2))
         then Inr (saved, ctx2)
         else Inl DbUpdateException)"

fun Categorias_Add_nested ::
  "int \<Rightarrow> (Transacao \<times> Pessoa option) list \<Rightarrow> AppDbContext \<Rightarrow> AppDbContext" where
  "Categorias_Add_nested ck [] ctx = ctx"
| "Categorias_Add_nested ck ((transacao, None) # rest) ctx =
     Categorias_Add_nested ck rest (snd (Transacoes_Add ctx (transacao\<lparr>CategoriaId := ck\<rparr>)))"
| "Categorias_Add_nested ck ((transacao, Some pessoa) # rest) ctx =
     (let (saved, ctx1) = Pessoas_Insert ctx pessoa
      in Categorias_Add_nested ck rest
           (snd (Transacoes_Add ctx1
                   (transacao\<lparr>CategoriaId := ck, PessoaId := Pessoa_Id saved\<rparr>))))"

definition Categorias_Add ::
  "AppDbContext \<Rightarrow> Categoria \<Rightarrow> (Transacao \<times> Pessoa option) list
     \<Rightarrow> exception + Categoria \<times> AppDbContext" where
  "Categorias_Add ctx categoria transacoes =
     (let (saved, ctx1) = Categorias_Insert ctx categoria;
          ctx2 = Categorias_Add_nested (Categoria_Id saved) transacoes ctx1
      in if list_all (\<lambda>t. PessoaId t \<in> set (map Pessoa_Id (Pessoas ctx2)))
              (drop (length (Transacoes ctx)) (Transacoes ctx2))
         then Inr (saved, ctx2)
         else Inl DbUpdateException)"

text \<open>
  Removing a person deletes its row by key. \<open>OnModelCreating\<close> configures the foreign key
  \<open>PessoaId\<close> with \<open>DeleteBehavior.Cascade\<close>, so the same \<open>SaveChangesAsync\<close> deletes
  every transaction whose \<open>PessoaId\<close> is that key.
\<close>

definition Pessoas_Remove :: "AppDbContext \<Rightarrow> Pessoa \<Rightarrow> AppDbContext" where
  "Pessoas_Remove ctx pessoa =
     ctx\<lparr>Pessoas := filter (\<lambda>p. Pessoa_Id p \<noteq> Pessoa_Id pessoa) (Pessoas ctx),
         Transacoes := filter (\<lambda>t. PessoaId t \<noteq> Pessoa_Id pessoa) (Transacoes ctx)\<rparr>"

text \<open>
  \<open>Categorias.Remove\<close> only marks a row; the final \<open>SaveChangesAsync\<close> deletes the marked
  rows by key.
\<close>

definition Categorias_RemoveRange :: "AppDbContext \<Rightarrow> Categoria list \<Rightarrow> AppDbContext" where
  "Categorias_RemoveRange ctx marked =
     ctx\<lparr>Categorias := filter (\<lambda>c. Categoria_Id c \<notin> set (map Categoria_Id marked)) (Categorias ctx)\<rparr>"



subsection \<open>Strings\<close>

text \<open>
  \<open>string.IsNullOrWhiteSpace\<close> on a non-nullable string: every character is white space.
  \<open>IsWhiteSpace\<close> is \<open>char.IsWhiteSpace\<close> on the 8-bit range of HOL characters: space,
  U+0009 to U+000D, U+0085 and U+00A0.
\<close>

definition IsWhiteSpace :: "char \<Rightarrow> bool" where
  "IsWhiteSpace c =
     (let n = (of_char c :: nat) in n = 32 \<or> (9 \<le> n \<and> n \<le> 13) \<or> n = 160 \<or> n = 133)"

definition IsNullOrWhiteSpace :: "string \<Rightarrow> bool" where
  "IsNullOrWhiteSpace s = list_all IsWhiteSpace s"

section \<open>PessoasController\<close>

text \<open>
  \<open>PostPessoa\<close> takes the bound entity: the row \<open>pessoa\<close> and \<open>pessoa.Transacoes\<close>. It
  tests the name and the age of the row only.
\<close>

definition PostPessoa ::
  "AppDbContext \<Rightarrow> Pessoa \<Rightarrow> (Transacao \<times> Categoria option) list
     \<Rightarrow> (exception + Pessoa ActionResult) \<times> AppDbContext" where
  "PostPessoa ctx pessoa transacoes =
     (if IsNullOrWhiteSpace (Nome pessoa) then (Inr (BadRequest NomeObrigatorio), ctx)
      else if Idade pessoa < 0 then (Inr (BadRequest IdadePositiva), ctx)
      else (case Pessoas_Add ctx pessoa transacoes of
              Inl e \<Rightarrow> (Inl e, ctx)
            | Inr (saved, ctx') \<Rightarrow> (Inr (CreatedAtAction saved), ctx')))"

text \<open>
  The orphan sweep of \<open>DeletePessoa\<close>: the \<open>foreach\<close> over \<open>todasCategorias\<close>, carrying the
  rows marked for removal and the counter \<open>categoriasRemovidas\<close>. \<open>AnyAsync\<close> queries the
  table of transactions as saved after the cascade.
\<close>

fun sweep :: "AppDbContext \<Rightarrow> Categoria list \<Rightarrow> Categoria list \<times> int \<Rightarrow> Categoria list \<times> int" where
  "sweep ctx [] st = st"
| "sweep ctx (categoria # rest) (marked, categoriasRemovidas) =
     (let temTransacoes = list_ex (\<lambda>t. CategoriaId t = Categoria_Id categoria) (Transacoes ctx)
      in if \<not> temTransacoes
         then sweep ctx rest (marked @ [categoria], categoriasRemovidas + 1)
         else sweep ctx rest (marked, categoriasRemovidas))"

definition DeletePessoa :: "AppDbContext \<Rightarrow> int \<Rightarrow> message ActionResult \<times> AppDbContext" where
  "DeletePessoa ctx ident =
     (case Pessoas_Find ctx ident of
        None \<Rightarrow> (NotFound PessoaNaoEncontrada, ctx)
      | Some pessoa \<Rightarrow>
          (let ctx1 = Pessoas_Remove ctx pessoa;
               todasCategorias = Categorias ctx1;
               (marked, categoriasRemovidas) = sweep ctx1 todasCategorias ([], 0);
               ctx2 = Categorias_RemoveRange ctx1 marked
           in (Ok (PessoaDeletada categoriasRemovidas), ctx2)))"

section \<open>CategoriasController\<close>

definition finalidadesValidas :: "string list" where
  "finalidadesValidas = [''Despesa'', ''Receita'', ''Ambas'']"

text \<open>
  \<open>PostCategoria\<close> takes the bound entity: the row \<open>categoria\<close> and
  \<open>categoria.Transacoes\<close>. It tests the description and the purpose of the row only.
\<close>

definition PostCategoria ::
  "AppDbContext \<Rightarrow> Categoria \<Rightarrow> (Transacao \<times> Pessoa option) list
     \<Rightarrow> (exception + Categoria ActionResult) \<times> AppDbContext" where
  "PostCategoria ctx categoria transacoes =
     (if IsNullOrWhiteSpace (Categoria_Descricao categoria)
        then (Inr (BadRequest DescricaoObrigatoria), ctx)
      else if Finalidade categoria \<notin> set finalidadesValidas
        then (Inr (BadRequest FinalidadeInvalida), ctx)
      else (case Categorias_Add ctx categoria transacoes of
              Inl e \<Rightarrow> (Inl e, ctx)
            | Inr (saved, ctx') \<Rightarrow> (Inr (CreatedAtAction saved), ctx')))"

section \<open>TransacoesController\<close>

definition tiposValidos :: "string list" where
  "tiposValidos = [''Despesa'', ''Receita'']"

definition PostTransacao :: "AppDbContext \<Rightarrow> Transacao \<Rightarrow> Transacao ActionResult \<times> AppDbContext" where
  "PostTransacao ctx transacao =
     (if IsNullOrWhiteSpace (Transacao_Descricao transacao) then (BadRequest DescricaoObrigatoria, ctx)
      else if Valor transacao \<le> 0 then (BadRequest ValorPositivo, ctx)
      else if Tipo transacao \<notin> set tiposValidos then (BadRequest TipoInvalido, ctx)
      else (case Pessoas_Find ctx (PessoaId transacao) of
          None \<Rightarrow> (BadRequest PessoaNaoEncontrada, ctx)
        | Some pessoa \<Rightarrow>
            if Idade pessoa < 18 \<and> Tipo transacao = ''Receita''
            then (BadRequest MenorDeIdade, ctx)
            else (case Categorias_Find ctx (CategoriaId transacao) of
                None \<Rightarrow> (BadRequest CategoriaNaoEncontrada, ctx)
              | Some categoria \<Rightarrow>
                  if Tipo transacao = ''Despesa'' \<and> Finalidade categoria = ''Receita''
                  then (BadRequest CategoriaExclusivaReceitas, ctx)
                  else if Tipo transacao = ''Receita'' \<and> Finalidade categoria = ''Despesa''
                  then (BadRequest CategoriaExclusivaDespesas, ctx)
                  else (let (saved, ctx') = Transacoes_Add ctx transacao
                        in (CreatedAtAction saved, ctx')))))"

section \<open>RelatoriosController\<close>



subsection \<open>Decimal arithmetic\<close>
















section \<open>Exact sums and amounts in cents\<close>


text \<open>
  An amount in cents has at most two fractional digits. A list of amounts is within the
  precision of the decimal format when its amounts are non-negative amounts in cents
  whose exact sum, counted in cents, fits the 96-bit mantissa (about 7.9e26).
\<close>

definition duas_casas :: "decimal \<Rightarrow> bool" where
  "duas_casas v \<longleftrightarrow> of_int \<lfloor>v * 100\<rfloor> = v * 100"


text \<open>The status line of a response, as \<open>ControllerBase\<close> sets it.\<close>

fun StatusCode :: "'a ActionResult \<Rightarrow> nat" where
  "StatusCode (Ok _) = 200"
| "StatusCode (CreatedAtAction _) = 201"
| "StatusCode (BadRequest _) = 400"
| "StatusCode (NotFound _) = 404"

section \<open>The admission contract\<close>






section \<open>An example household\<close>

text \<open>
  Ana is 15, Bruno is exactly 18, Carla is 30. Category 4 has never been used; category
  2 is used by Ana only, category 3 by Ana and Carla, category 1 by Bruno only.
\<close>

definition casa :: AppDbContext where
  "casa =
     \<lparr>Pessoas =
        [\<lparr>Pessoa_Id = 1, Nome = ''Ana'', Idade = 15\<rparr>,
         \<lparr>Pessoa_Id = 2, Nome = ''Bruno'', Idade = 18\<rparr>,
         \<lparr>Pessoa_Id = 3, Nome = ''Carla'', Idade = 30\<rparr>],
      Categorias =
        [\<lparr>Categoria_Id = 1, Categoria_Descricao = ''Salario'', Finalidade = ''Receita''\<rparr>,
         \<lparr>Categoria_Id = 2, Categoria_Descricao = ''Mercado'', Finalidade = ''Despesa''\<rparr>,
         \<lparr>Categoria_Id = 3, Categoria_Descricao = ''Diversos'', Finalidade = ''Ambas''\<rparr>,
         \<lparr>Categoria_Id = 4, Categoria_Descricao = ''Viagem'', Finalidade = ''Ambas''\<rparr>],
      Transacoes =
        [\<lparr>Transacao_Id = 1, Transacao_Descricao = ''Lanche'', Valor = 50, Tipo = ''Despesa'',
          CategoriaId = 2, PessoaId = 1\<rparr>,
         \<lparr>Transacao_Id = 2, Transacao_Descricao = ''Pagamento'', Valor = 100, Tipo = ''Receita'',
          CategoriaId = 1, PessoaId = 2\<rparr>,
         \<lparr>Transacao_Id = 3, Transacao_Descricao = ''Cinema'', Valor = 40, Tipo = ''Despesa'',
          CategoriaId = 3, PessoaId = 1\<rparr>,
         \<lparr>Transacao_Id = 4, Transacao_Descricao = ''Venda'', Valor = 25 / 2, Tipo = ''Receita'',
          CategoriaId = 3, PessoaId = 3\<rparr>]\<rparr>"

definition proposta :: "string \<Rightarrow> decimal \<Rightarrow> string \<Rightarrow> int \<Rightarrow> int \<Rightarrow> Transacao" where
  "proposta d v tp c p =
     \<lparr>Transacao_Id = 0, Transacao_Descricao = d, Valor = v, Tipo = tp, CategoriaId = c,
      PessoaId = p\<rparr>"



section \<open>Lookups\<close>

lemma Pessoas_Find_None:
  "Pessoas_Find ctx k = None \<longleftrightarrow> k \<notin> set (map Pessoa_Id (Pessoas ctx))"
  by (auto simp: Pessoas_Find_def find_None_iff)

lemma Pessoas_Find_Some_key:
  "Pessoas_Find ctx k = Some p \<Longrightarrow> Pessoa_Id p = k \<and> p \<in> set (Pessoas ctx)"
  by (auto simp: Pessoas_Find_def find_Some_iff)

lemma Categorias_Find_None:
  "Categorias_Find ctx k = None \<longleftrightarrow> k \<notin> set (map Categoria_Id (Categorias ctx))"
  by (auto simp: Categorias_Find_def find_None_iff)

lemma Categorias_Find_Some_key:
  "Categorias_Find ctx k = Some c \<Longrightarrow> Categoria_Id c = k \<and> c \<in> set (Categorias ctx)"
  by (auto simp: Categorias_Find_def find_Some_iff)

section \<open>Deleting a person\<close>

text \<open>
  The sweep marks exactly the categories no saved transaction refers to, in table order,
  and counts them.
\<close>

lemma sweep_eq:
  "sweep ctx cs (marked, n) =
     (marked @ filter (\<lambda>c. \<not> list_ex (\<lambda>t. CategoriaId t = Categoria_Id c) (Transacoes ctx)) cs,
      n + int (length (filter (\<lambda>c. \<not> list_ex (\<lambda>t. CategoriaId t = Categoria_Id c) (Transacoes ctx)) cs)))"
  by (induction cs arbitrary: marked n) (simp_all add: Let_def)

lemma DeletePessoa_Some:
  assumes "Pessoas_Find ctx ident = Some pessoa"
  shows "DeletePessoa ctx ident =
     (Ok (PessoaDeletada (int (length (filter
            (\<lambda>c. \<not> list_ex (\<lambda>t. CategoriaId t = Categoria_Id c)
                     (filter (\<lambda>t. PessoaId t \<noteq> ident) (Transacoes ctx)))
            (Categorias ctx))))),
      \<lparr>Pessoas = filter (\<lambda>p. Pessoa_Id p \<noteq> ident) (Pessoas ctx),
       Categorias = filter
            (\<lambda>c. list_ex (\<lambda>t. CategoriaId t = Categoria_Id c)
                   (filter (\<lambda>t. PessoaId t \<noteq> ident) (Transacoes ctx)))
            (Categorias ctx),
       Transacoes = filter (\<lambda>t. PessoaId t \<noteq> ident) (Transacoes ctx)\<rparr>)"
proof -
  have k: "Pessoa_Id pessoa = ident"
    using assms by (simp add: Pessoas_Find_Some_key)
  let ?ts = "filter (\<lambda>t. PessoaId t \<noteq> ident) (Transacoes ctx)"
  let ?orph = "\<lambda>c. \<not> list_ex (\<lambda>t. CategoriaId t = Categoria_Id c) ?ts"
  have f: "filter (\<lambda>c. Categoria_Id c \<notin> Categoria_Id ` set (filter ?orph (Categorias ctx))) (Categorias ctx)
        = filter (\<lambda>c. \<not> ?orph c) (Categorias ctx)"
    by (rule filter_cong) (auto simp: list_ex_iff)
  have r: "\<And>a b c. ctx\<lparr>Pessoas := a, Transacoes := b, Categorias := c\<rparr>
             = \<lparr>Pessoas = a, Categorias = c, Transacoes = b\<rparr>"
    by (cases ctx) simp
  show ?thesis
    using f
    by (simp add: DeletePessoa_def assms Pessoas_Remove_def k sweep_eq
          Categorias_RemoveRange_def Let_def r)
qed

text \<open>
  Claim C1. When \<open>DeletePessoa\<close> is called with the key of a stored person, the store it
  leaves holds no transaction of that person (the other transactions are all kept), the
  person's row is gone, and the categories kept are exactly the categories of the old
  table that some remaining transaction refers to: every category without a remaining
  transaction is deleted, whether or not the deleted person ever used it, and no other.
  The response is \<open>Ok\<close> and its message carries the number of categories removed.
\<close>

theorem DeletePessoa_cascade_sweep:
  assumes "ident \<in> set (map Pessoa_Id (Pessoas ctx))"
  shows "list_all (\<lambda>t. PessoaId t \<noteq> ident) (Transacoes (snd (DeletePessoa ctx ident))) \<and>
         Transacoes (snd (DeletePessoa ctx ident)) =
           filter (\<lambda>t. PessoaId t \<noteq> ident) (Transacoes ctx) \<and>
         Pessoas (snd (DeletePessoa ctx ident)) =
           filter (\<lambda>p. Pessoa_Id p \<noteq> ident) (Pessoas ctx) \<and>
         Categorias (snd (DeletePessoa ctx ident)) =
           filter (\<lambda>c. list_ex (\<lambda>t. CategoriaId t = Categoria_Id c)
                          (Transacoes (snd (DeletePessoa ctx ident))))
             (Categorias ctx) \<and>
         fst (DeletePessoa ctx ident) =
           Ok (PessoaDeletada (int (length (Categorias ctx)) -
                               int (length (Categorias (snd (DeletePessoa ctx ident))))))"
proof -
  from assms obtain pessoa where p: "Pessoas_Find ctx ident = Some pessoa"
    using Pessoas_Find_None [of ctx ident] by (cases "Pessoas_Find ctx ident") auto
  let ?ts = "filter (\<lambda>t. PessoaId t \<noteq> ident) (Transacoes ctx)"
  let ?used = "\<lambda>c. list_ex (\<lambda>t. CategoriaId t = Categoria_Id c) ?ts"
  have len: "int (length (filter (\<lambda>c. \<not> ?used c) (Categorias ctx))) =
             int (length (Categorias ctx)) - int (length (filter ?used (Categorias ctx)))"
    using sum_length_filter_compl [of ?used "Categorias ctx"] by simp
  show ?thesis
    unfolding DeletePessoa_Some [OF p] using len by (simp add: list_all_iff)
qed

text \<open>
  In the example household, deleting Ana (key 1) removes her two transactions, then
  category 2 (used by Ana only) and category 4 (never used by anyone); the message
  reports 2.
\<close>

theorem DeletePessoa_cascade_sweep_witness:
  "1 \<in> set (map Pessoa_Id (Pessoas casa)) \<and>
   fst (DeletePessoa casa 1) = Ok (PessoaDeletada 2) \<and>
   map Transacao_Id (Transacoes (snd (DeletePessoa casa 1))) = [2, 4] \<and>
   map Categoria_Id (Categorias (snd (DeletePessoa casa 1))) = [1, 3] \<and>
   map Pessoa_Id (Pessoas (snd (DeletePessoa casa 1))) = [2, 3]"
  using DeletePessoa_cascade_sweep [of 1 casa]
  by (simp add: casa_def)

text \<open>
  Claim C8. \<open>DeletePessoa\<close> with a key no stored person has answers \<open>NotFound\<close> with the
  message "Pessoa nao encontrada" and returns the store as it was: persons, transactions
  and categories are untouched, so no sweep has run. In particular, deleting the same key
  a second time, right after any first call, always gives this answer.
\<close>

theorem DeletePessoa_not_found:
  "(ident \<notin> set (map Pessoa_Id (Pessoas ctx)) \<longrightarrow>
      DeletePessoa ctx ident = (NotFound PessoaNaoEncontrada, ctx)) \<and>
   DeletePessoa (snd (DeletePessoa ctx ident)) ident =
     (NotFound PessoaNaoEncontrada, snd (DeletePessoa ctx ident))"
proof -
  have a: "DeletePessoa c k = (NotFound PessoaNaoEncontrada, c)"
    if "k \<notin> set (map Pessoa_Id (Pessoas c))" for c k
    using that Pessoas_Find_None [of c k] by (simp add: DeletePessoa_def)
  have b: "ident \<notin> set (map Pessoa_Id (Pessoas (snd (DeletePessoa ctx ident))))"
  proof (cases "Pessoas_Find ctx ident")
    case None
    then show ?thesis
      using Pessoas_Find_None [of ctx ident] by (simp add: DeletePessoa_def)
  next
    case (Some pessoa)
    show ?thesis
      unfolding DeletePessoa_Some [OF Some] by auto
  qed
  show ?thesis
    using a [of ident ctx] a [OF b] by simp
qed

text \<open>
  No person of the example household has key 99. The orphan category 4 is still there
  after the failed call.
\<close>

theorem DeletePessoa_not_found_witness:
  "99 \<notin> set (map Pessoa_Id (Pessoas casa)) \<and>
   DeletePessoa casa 99 = (NotFound PessoaNaoEncontrada, casa) \<and>
   map Categoria_Id (Categorias (snd (DeletePessoa casa 99))) = [1, 2, 3, 4] \<and>
   fst (DeletePessoa (snd (DeletePessoa casa 1)) 1) = NotFound PessoaNaoEncontrada"
  using DeletePessoa_not_found [of 99 casa] DeletePessoa_not_found [of 1 casa]
  by (simp add: casa_def)

section \<open>Creating a transaction\<close>

lemma member_tiposValidos:
  "tp \<in> set tiposValidos \<longleftrightarrow> tp = ''Despesa'' \<or> tp = ''Receita''"
  by (auto simp: tiposValidos_def)

lemma member_finalidadesValidas:
  "f \<in> set finalidadesValidas \<longleftrightarrow> f = ''Despesa'' \<or> f = ''Receita'' \<or> f = ''Ambas''"
  by (auto simp: finalidadesValidas_def)




text \<open>Unfolding the controllers on concrete requests.\<close>

lemmas eval_defs = casa_def proposta_def PostTransacao_def
       IsNullOrWhiteSpace_def IsWhiteSpace_def member_tiposValidos Pessoas_Find_def Categorias_Find_def
       Transacoes_Add_def next_key_def Let_def



text \<open>
  Claim C3. For a stored person younger than 18, a request of kind "Receita" is always
  rejected and nothing is stored. Once its description is not blank and its amount is
  positive (the field validation that comes first), the reason is the minor-income
  message, whatever the category key is, also one that no category has. For a stored
  person aged 18 or more, 18 included, the response is never the minor-income rejection.
\<close>

theorem PostTransacao_minor_rule:
  "(Pessoas_Find ctx (PessoaId t) = Some p \<and> Idade p < 18 \<and> Tipo t = ''Receita'' \<longrightarrow>
      snd (PostTransacao ctx t) = ctx \<and>
      (\<exists>m. fst (PostTransacao ctx t) = BadRequest m) \<and>
      (\<not> IsNullOrWhiteSpace (Transacao_Descricao t) \<and> 0 < Valor t \<longrightarrow>
         PostTransacao ctx t = (BadRequest MenorDeIdade, ctx))) \<and>
   (Pessoas_Find ctx (PessoaId t) = Some p \<and> 18 \<le> Idade p \<longrightarrow>
      fst (PostTransacao ctx t) \<noteq> BadRequest MenorDeIdade)"
  by (auto simp: PostTransacao_def member_tiposValidos Transacoes_Add_def Let_def
        split: option.splits)

text \<open>
  Ana is 15: her income is refused with an income category, a mixed one and a missing
  one. Bruno is exactly 18: his income is accepted.
\<close>

theorem PostTransacao_minor_rule_witness:
  "Pessoas_Find casa 1 = Some \<lparr>Pessoa_Id = 1, Nome = ''Ana'', Idade = 15\<rparr> \<and>
   PostTransacao casa (proposta ''Mesada'' 20 ''Receita'' 1 1) = (BadRequest MenorDeIdade, casa) \<and>
   PostTransacao casa (proposta ''Mesada'' 20 ''Receita'' 3 1) = (BadRequest MenorDeIdade, casa) \<and>
   PostTransacao casa (proposta ''Mesada'' 20 ''Receita'' 77 1) = (BadRequest MenorDeIdade, casa) \<and>
   Pessoas_Find casa 2 = Some \<lparr>Pessoa_Id = 2, Nome = ''Bruno'', Idade = 18\<rparr> \<and>
   fst (PostTransacao casa (proposta ''Bolsa'' 20 ''Receita'' 1 2)) \<noteq> BadRequest MenorDeIdade \<and>
   fst (PostTransacao casa (proposta ''Bolsa'' 20 ''Receita'' 1 2)) =
     CreatedAtAction ((proposta ''Bolsa'' 20 ''Receita'' 1 2)\<lparr>Transacao_Id := 5\<rparr>)"
  using PostTransacao_minor_rule [of casa "proposta ''Mesada'' 20 ''Receita'' 1 1"
          "\<lparr>Pessoa_Id = 1, Nome = ''Ana'', Idade = 15\<rparr>"]
        PostTransacao_minor_rule [of casa "proposta ''Bolsa'' 20 ''Receita'' 1 2"
          "\<lparr>Pessoa_Id = 2, Nome = ''Bruno'', Idade = 18\<rparr>"]
  by (simp add: eval_defs)

text \<open>
  Claim C4, as stated, fails for a minor. Ana is 15 and category 2 is for expenses only;
  her request of kind "Receita" against it is rejected by the minor rule, which runs
  before the category is looked up, and not with the category-mismatch message.
\<close>

theorem category_mismatch_counterexample:
  "Pessoas_Find casa 1 = Some \<lparr>Pessoa_Id = 1, Nome = ''Ana'', Idade = 15\<rparr> \<and>
   Categorias_Find casa 2 =
     Some \<lparr>Categoria_Id = 2, Categoria_Descricao = ''Mercado'', Finalidade = ''Despesa''\<rparr> \<and>
   PostTransacao casa (proposta ''Mesada'' 20 ''Receita'' 2 1) = (BadRequest MenorDeIdade, casa) \<and>
   fst (PostTransacao casa (proposta ''Mesada'' 20 ''Receita'' 2 1)) \<noteq>
     BadRequest CategoriaExclusivaDespesas"
  by (simp add: eval_defs)

text \<open>
  Claim C4, amended. For a stored person and a stored category, and a request that
  passes the field validation: kind "Despesa" against a category of purpose "Receita" is
  rejected with the category-mismatch message for income-only categories; kind "Receita"
  against a category of purpose "Despesa" is rejected with the category-mismatch message
  for expense-only categories when the person is at least 18. A category of purpose
  "Ambas" never leads to either category-mismatch rejection.
\<close>

theorem PostTransacao_category_compatibility:
  "(\<not> IsNullOrWhiteSpace (Transacao_Descricao t) \<and> 0 < Valor t \<and>
    Pessoas_Find ctx (PessoaId t) = Some p \<and> Categorias_Find ctx (CategoriaId t) = Some c \<and>
    Tipo t = ''Despesa'' \<and> Finalidade c = ''Receita'' \<longrightarrow>
      PostTransacao ctx t = (BadRequest CategoriaExclusivaReceitas, ctx)) \<and>
   (\<not> IsNullOrWhiteSpace (Transacao_Descricao t) \<and> 0 < Valor t \<and>
    Pessoas_Find ctx (PessoaId t) = Some p \<and> Categorias_Find ctx (CategoriaId t) = Some c \<and>
    Tipo t = ''Receita'' \<and> Finalidade c = ''Despesa'' \<and> 18 \<le> Idade p \<longrightarrow>
      PostTransacao ctx t = (BadRequest CategoriaExclusivaDespesas, ctx)) \<and>
   (Categorias_Find ctx (CategoriaId t) = Some c \<and> Finalidade c = ''Ambas'' \<longrightarrow>
      fst (PostTransacao ctx t) \<noteq> BadRequest CategoriaExclusivaReceitas \<and>
      fst (PostTransacao ctx t) \<noteq> BadRequest CategoriaExclusivaDespesas)"
  by (auto simp: PostTransacao_def member_tiposValidos Transacoes_Add_def Let_def
        split: option.splits)

theorem PostTransacao_category_compatibility_witness:
  "Pessoas_Find casa 1 = Some \<lparr>Pessoa_Id = 1, Nome = ''Ana'', Idade = 15\<rparr> \<and>
   Categorias_Find casa 1 =
     Some \<lparr>Categoria_Id = 1, Categoria_Descricao = ''Salario'', Finalidade = ''Receita''\<rparr> \<and>
   PostTransacao casa (proposta ''Lanche'' 10 ''Despesa'' 1 1) =
     (BadRequest CategoriaExclusivaReceitas, casa) \<and>
   Pessoas_Find casa 2 = Some \<lparr>Pessoa_Id = 2, Nome = ''Bruno'', Idade = 18\<rparr> \<and>
   Categorias_Find casa 2 =
     Some \<lparr>Categoria_Id = 2, Categoria_Descricao = ''Mercado'', Finalidade = ''Despesa''\<rparr> \<and>
   PostTransacao casa (proposta ''Bolsa'' 20 ''Receita'' 2 2) =
     (BadRequest CategoriaExclusivaDespesas, casa) \<and>
   Categorias_Find casa 3 =
     Some \<lparr>Categoria_Id = 3, Categoria_Descricao = ''Diversos'', Finalidade = ''Ambas''\<rparr> \<and>
   fst (PostTransacao casa (proposta ''Bolsa'' 20 ''Receita'' 3 2)) =
     CreatedAtAction ((proposta ''Bolsa'' 20 ''Receita'' 3 2)\<lparr>Transacao_Id := 5\<rparr>) \<and>
   fst (PostTransacao casa (proposta ''Lanche'' 10 ''Despesa'' 3 1)) =
     CreatedAtAction ((proposta ''Lanche'' 10 ''Despesa'' 3 1)\<lparr>Transacao_Id := 5\<rparr>)"
  using PostTransacao_category_compatibility [of "proposta ''Lanche'' 10 ''Despesa'' 1 1" casa
          "\<lparr>Pessoa_Id = 1, Nome = ''Ana'', Idade = 15\<rparr>"
          "\<lparr>Categoria_Id = 1, Categoria_Descricao = ''Salario'', Finalidade = ''Receita''\<rparr>"]
        PostTransacao_category_compatibility [of "proposta ''Bolsa'' 20 ''Receita'' 2 2" casa
          "\<lparr>Pessoa_Id = 2, Nome = ''Bruno'', Idade = 18\<rparr>"
          "\<lparr>Categoria_Id = 2, Categoria_Descricao = ''Mercado'', Finalidade = ''Despesa''\<rparr>"]
        PostTransacao_category_compatibility [of "proposta ''Bolsa'' 20 ''Receita'' 3 2" casa
          "\<lparr>Pessoa_Id = 2, Nome = ''Bruno'', Idade = 18\<rparr>"
          "\<lparr>Categoria_Id = 3, Categoria_Descricao = ''Diversos'', Finalidade = ''Ambas''\<rparr>"]
  by (simp add: eval_defs)

text \<open>
  Claim C7, as stated, fails on the response class. For a missing person and for a
  missing category \<open>PostTransacao\<close> answers \<open>BadRequest\<close> (400), the class it also
  uses for invalid input and for the two business rules; \<open>NotFound\<close> (404) is what
  \<open>DeletePessoa\<close> answers for a missing person.
\<close>

theorem not_found_class_counterexample:
  "PostTransacao casa (proposta ''Mesada'' 10 ''Receita'' 1 99) =
     (BadRequest PessoaNaoEncontrada, casa) \<and>
   PostTransacao casa (proposta ''Lanche'' 10 ''Despesa'' 99 3) =
     (BadRequest CategoriaNaoEncontrada, casa) \<and>
   PostTransacao casa (proposta ''Mesada'' 10 ''Renda'' 1 1) = (BadRequest TipoInvalido, casa) \<and>
   PostTransacao casa (proposta ''Mesada'' 10 ''Receita'' 1 1) = (BadRequest MenorDeIdade, casa) \<and>
   StatusCode (fst (PostTransacao casa (proposta ''Mesada'' 10 ''Receita'' 1 99))) = 400 \<and>
   StatusCode (fst (PostTransacao casa (proposta ''Lanche'' 10 ''Despesa'' 99 3))) = 400 \<and>
   StatusCode (fst (PostTransacao casa (proposta ''Mesada'' 10 ''Renda'' 1 1))) = 400 \<and>
   StatusCode (fst (PostTransacao casa (proposta ''Mesada'' 10 ''Receita'' 1 1))) = 400 \<and>
   DeletePessoa casa 99 = (NotFound PessoaNaoEncontrada, casa) \<and>
   StatusCode (fst (DeletePessoa casa 99)) = 404"
  by (simp add: eval_defs DeletePessoa_def)

text \<open>
  Claim C7, amended. A request that passes the field validation and names a person key
  no stored person has is rejected with the message "Pessoa nao encontrada"; one whose
  person exists and passes the minor rule, and whose category key no stored category
  has, is rejected with the message "Categoria nao encontrada". Each of the two messages
  is returned only when the person, respectively the category, is missing, so the
  caller tells these rejections from all others by the message. The response class does
  not tell them apart: \<open>PostTransacao\<close> never answers \<open>NotFound\<close>, every response is
  \<open>BadRequest\<close> or \<open>CreatedAtAction\<close>.
\<close>

theorem PostTransacao_not_found_messages:
  "(\<not> IsNullOrWhiteSpace (Transacao_Descricao t) \<and> 0 < Valor t \<and> Tipo t \<in> set tiposValidos \<and>
    PessoaId t \<notin> set (map Pessoa_Id (Pessoas ctx)) \<longrightarrow>
      PostTransacao ctx t = (BadRequest PessoaNaoEncontrada, ctx)) \<and>
   (\<not> IsNullOrWhiteSpace (Transacao_Descricao t) \<and> 0 < Valor t \<and> Tipo t \<in> set tiposValidos \<and>
    Pessoas_Find ctx (PessoaId t) = Some p \<and> \<not> (Idade p < 18 \<and> Tipo t = ''Receita'') \<and>
    CategoriaId t \<notin> set (map Categoria_Id (Categorias ctx)) \<longrightarrow>
      PostTransacao ctx t = (BadRequest CategoriaNaoEncontrada, ctx)) \<and>
   (fst (PostTransacao ctx t) = BadRequest PessoaNaoEncontrada \<longrightarrow>
      PessoaId t \<notin> set (map Pessoa_Id (Pessoas ctx))) \<and>
   (fst (PostTransacao ctx t) = BadRequest CategoriaNaoEncontrada \<longrightarrow>
      CategoriaId t \<notin> set (map Categoria_Id (Categorias ctx))) \<and>
   (\<forall>m. fst (PostTransacao ctx t) \<noteq> NotFound m) \<and>
   (StatusCode (fst (PostTransacao ctx t)) = 400 \<or> StatusCode (fst (PostTransacao ctx t)) = 201)"
  unfolding Pessoas_Find_None [symmetric] Categorias_Find_None [symmetric]
  by (auto simp: PostTransacao_def Transacoes_Add_def Let_def split: option.splits)

theorem PostTransacao_not_found_messages_witness:
  "99 \<notin> set (map Pessoa_Id (Pessoas casa)) \<and>
   PostTransacao casa (proposta ''Mesada'' 10 ''Receita'' 1 99) =
     (BadRequest PessoaNaoEncontrada, casa) \<and>
   Pessoas_Find casa 3 = Some \<lparr>Pessoa_Id = 3, Nome = ''Carla'', Idade = 30\<rparr> \<and>
   99 \<notin> set (map Categoria_Id (Categorias casa)) \<and>
   PostTransacao casa (proposta ''Lanche'' 10 ''Despesa'' 99 3) =
     (BadRequest CategoriaNaoEncontrada, casa)"
  using PostTransacao_not_found_messages [of "proposta ''Mesada'' 10 ''Receita'' 1 99" casa
          "\<lparr>Pessoa_Id = 3, Nome = ''Carla'', Idade = 30\<rparr>"]
        PostTransacao_not_found_messages [of "proposta ''Lanche'' 10 ''Despesa'' 99 3" casa
          "\<lparr>Pessoa_Id = 3, Nome = ''Carla'', Idade = 30\<rparr>"]
  by (simp add: eval_defs)

section \<open>Properties of the decimal arithmetic\<close>









lemma duas_casas_0 [simp]: "duas_casas 0"
  by (simp add: duas_casas_def)



























section \<open>The totals reports\<close>

















section \<open>Rows no controller has tested\<close>

text \<open>Unfolding the three creating endpoints on concrete requests.\<close>

lemmas post_defs = EnsureCreated_def proposta_def PostPessoa_def PostCategoria_def PostTransacao_def
  Pessoas_Add_def Categorias_Add_def Pessoas_Insert_def Categorias_Insert_def Transacoes_Add_def
  next_key_def IsNullOrWhiteSpace_def IsWhiteSpace_def member_tiposValidos
  member_finalidadesValidas Pessoas_Find_def Categorias_Find_def Let_def





text \<open>
  Claim C10. The invariant fails in a store reached by two accepted requests from the
  empty database. \<open>PostCategoria\<close> stores a category of purpose "Ambas". \<open>PostPessoa\<close>
  is then given a person whose \<open>Transacoes\<close> collection holds one transaction of kind
  "Renda" naming that category: it tests the name and the age, and the transaction is
  saved with its kind untested. The same row sent to \<open>PostTransacao\<close> is rejected as
  an invalid kind. A category nested in the nested transaction is saved with the purpose
  "Qualquer" in the same way. A nested transaction that names no stored category makes
  the save fail and leaves the store unchanged.
\<close>

theorem nested_rows_bypass:
  "PostPessoa
     (snd (PostCategoria EnsureCreated
             \<lparr>Categoria_Id = 0, Categoria_Descricao = ''Diversos'', Finalidade = ''Ambas''\<rparr> []))
     \<lparr>Pessoa_Id = 0, Nome = ''Dora'', Idade = 40\<rparr>
     [(proposta ''Bico'' 10 ''Renda'' 1 0, None)] =
     (Inr (CreatedAtAction \<lparr>Pessoa_Id = 1, Nome = ''Dora'', Idade = 40\<rparr>),
      \<lparr>Pessoas = [\<lparr>Pessoa_Id = 1, Nome = ''Dora'', Idade = 40\<rparr>],
       Categorias =
         [\<lparr>Categoria_Id = 1, Categoria_Descricao = ''Diversos'', Finalidade = ''Ambas''\<rparr>],
       Transacoes =
         [\<lparr>Transacao_Id = 1, Transacao_Descricao = ''Bico'', Valor = 10, Tipo = ''Renda'',
           CategoriaId = 1, PessoaId = 1\<rparr>]\<rparr>) \<and>
   PostTransacao
     (snd (PostPessoa
             (snd (PostCategoria EnsureCreated
                     \<lparr>Categoria_Id = 0, Categoria_Descricao = ''Diversos'', Finalidade = ''Ambas''\<rparr> []))
             \<lparr>Pessoa_Id = 0, Nome = ''Dora'', Idade = 40\<rparr> []))
     (proposta ''Bico'' 10 ''Renda'' 1 1) =
     (BadRequest TipoInvalido,
      \<lparr>Pessoas = [\<lparr>Pessoa_Id = 1, Nome = ''Dora'', Idade = 40\<rparr>],
       Categorias =
         [\<lparr>Categoria_Id = 1, Categoria_Descricao = ''Diversos'', Finalidade = ''Ambas''\<rparr>],
       Transacoes = []\<rparr>) \<and>
   PostPessoa EnsureCreated \<lparr>Pessoa_Id = 0, Nome = ''Dora'', Idade = 40\<rparr>
     [(proposta ''Bico'' 10 ''Renda'' 0 0,
       Some \<lparr>Categoria_Id = 0, Categoria_Descricao = ''Extra'', Finalidade = ''Qualquer''\<rparr>)] =
     (Inr (CreatedAtAction \<lparr>Pessoa_Id = 1, Nome = ''Dora'', Idade = 40\<rparr>),
      \<lparr>Pessoas = [\<lparr>Pessoa_Id = 1, Nome = ''Dora'', Idade = 40\<rparr>],
       Categorias =
         [\<lparr>Categoria_Id = 1, Categoria_Descricao = ''Extra'', Finalidade = ''Qualquer''\<rparr>],
       Transacoes =
         [\<lparr>Transacao_Id = 1, Transacao_Descricao = ''Bico'', Valor = 10, Tipo = ''Renda'',
           CategoriaId = 1, PessoaId = 1\<rparr>]\<rparr>) \<and>
   PostPessoa EnsureCreated \<lparr>Pessoa_Id = 0, Nome = ''Dora'', Idade = 40\<rparr>
     [(proposta ''Bico'' 10 ''Renda'' 7 0, None)] = (Inl DbUpdateException, EnsureCreated)"
  by (simp add: post_defs)

end
